theory Spec2Isabelle
  imports Complex_Main "HOL-Library.Word"
begin

section \<open>Spiral chip-removal groove: the developed (unrolled) geometry\<close>

text \<open>
  A shallow embedding of \<^verbatim>\<open>SpiralCalculator.cpp\<close>, of the view fitting in
  \<^verbatim>\<open>MainWindow::GenerateSpiral\<close> and of the pass-through in
  \<^verbatim>\<open>AutoCADDrawer.cpp\<close>.

  Numbers. A C++ \<^verbatim>\<open>double\<close> that holds a coordinate or a parameter is a
  \<^typ>\<open>real\<close>: rounding is not modelled, sums and products are exact (the model
  follows the source as long as they stay within the range of a double), and the macro
  \<^verbatim>\<open>M_PI\<close> is the number \<open>\<pi>\<close> it approximates. Three places of \<^verbatim>\<open>CalculateSpiralGroove\<close> go beyond
  exact arithmetic, because the control flow of the source depends on them:
  \<^item> the two quotients that the source tests with \<^verbatim>\<open>std::isnan\<close> and
    \<^verbatim>\<open>std::isinf\<close> are values of the type \<open>xdouble\<close> below: a division by zero
    yields the infinity or the NaN of IEEE 754, a quotient too large for a double
    overflows to an infinity and one too small underflows to zero;
  \<^item> the conversion \<^verbatim>\<open>(int)\<close> of a double truncates toward zero when the result
    fits a 32-bit \<^verbatim>\<open>int\<close>; outside that range C++ leaves it undefined, and the
    model takes what the conversion instruction of the x86 processors delivers;
  \<^item> \<^verbatim>\<open>tan\<close> is the function of the C library, not of this repository, and works
    on the rounded argument: it has neither the poles nor the zeros (other than 0) of the
    exact tangent. It is the parameter \<open>ctan\<close> of the model. Statements that need no
    property of it hold for every \<open>ctan\<close>; the others are stated for the exact tangent
    \<^const>\<open>tan\<close> at angles where the library's value is a rounding of it.
  A C++ \<^verbatim>\<open>int\<close> that is a parameter is a 32-bit word read by \<^const>\<open>sint\<close>; one
  that is computed is an \<^typ>\<open>int\<close>.
\<close>

subsection \<open>Data\<close>

text \<open>\<^verbatim>\<open>struct Point2D { double x; double y; }\<close>; the fields are named
  \<open>pt_x\<close> and \<open>pt_y\<close> to keep \<open>x\<close> and \<open>y\<close> free as variable names.\<close>

record Point2D =
  pt_x :: real
  pt_y :: real

text \<open>A double that may be non-finite: the result of an IEEE division.\<close>

datatype xdouble = Finite real | PosInf | NegInf | NaN

fun isnan :: "xdouble \<Rightarrow> bool" where
  "isnan NaN = True"
| "isnan _ = False"

fun isinf :: "xdouble \<Rightarrow> bool" where
  "isinf PosInf = True"
| "isinf NegInf = True"
| "isinf _ = False"

text \<open>The comparison \<^verbatim>\<open>v <= 0\<close>: false on a NaN, as every IEEE comparison is.\<close>

fun le_zero :: "xdouble \<Rightarrow> bool" where
  "le_zero (Finite r) = (r \<le> 0)"
| "le_zero NegInf = True"
| "le_zero PosInf = False"
| "le_zero NaN = False"

text \<open>
  The limits of the binary64 format under rounding to nearest: a magnitude of at least
  \<open>2^1024 - 2^970\<close> (the largest double plus half a unit in its last place) rounds to
  an infinity, a magnitude of at most \<open>2^-1075\<close> (half the smallest subnormal) rounds to
  zero.
\<close>

definition overflow_threshold :: real where
  "overflow_threshold = 2 ^ 1024 - 2 ^ 970"

definition underflow_threshold :: real where
  "underflow_threshold = 1 / 2 ^ 1075"

text \<open>
  The division \<^verbatim>\<open>a / b\<close> of a finite \<open>a\<close>: a nonzero number over zero is an
  infinity with the sign of the numerator (the zero taken as \<open>+0\<close>), zero over zero is
  NaN, a finite number over an infinity is zero, and NaN propagates. Over a nonzero
  number the quotient overflows to an infinity or underflows to zero at the limits
  above, and is the exact quotient between them.
\<close>

fun fdiv :: "real \<Rightarrow> xdouble \<Rightarrow> xdouble" where
  "fdiv a (Finite b) =
     (if b \<noteq> 0
      then (if overflow_threshold \<le> a / b then PosInf
            else if a / b \<le> - overflow_threshold then NegInf
            else if \<bar>a / b\<bar> \<le> underflow_threshold then Finite 0
            else Finite (a / b))
      else if a = 0 then NaN
      else if 0 < a then PosInf else NegInf)"
| "fdiv a PosInf = Finite 0"
| "fdiv a NegInf = Finite 0"
| "fdiv a NaN = NaN"

text \<open>The number held by a double once the guard has excluded NaN and the infinities.\<close>

fun finite_val :: "xdouble \<Rightarrow> real" where
  "finite_val (Finite r) = r"
| "finite_val _ = 0"

text \<open>
  \<^verbatim>\<open>(int)v\<close>: truncation toward zero when the truncated value lies between
  \<^verbatim>\<open>INT_MIN\<close> and \<^verbatim>\<open>INT_MAX\<close>. Otherwise the behaviour is undefined in C++; the
  value here is the "integer indefinite" \<open>-2^31\<close> that the x86 conversion instruction
  returns.
\<close>

definition double_to_int :: "real \<Rightarrow> int" where
  "double_to_int v =
     (if - 2147483649 < v \<and> v < 2147483648
      then (if 0 \<le> v then \<lfloor>v\<rfloor> else \<lceil>v\<rceil>)
      else - 2147483648)"

definition M_PI :: real where
  "M_PI = pi"

subsection \<open>\<^verbatim>\<open>SpiralCalculator::CalculateSpiralGroove\<close>\<close>

text \<open>The locals of the function, one definition for each, in the order of the source.\<close>

definition angleRad :: "real \<Rightarrow> real" where
  "angleRad spiralAngle = spiralAngle * M_PI / 180"

definition radius :: "real \<Rightarrow> real" where
  "radius drillDiameter = drillDiameter / 2"

definition circumference :: "real \<Rightarrow> real" where
  "circumference drillDiameter = 2 * M_PI * radius drillDiameter"

text \<open>\<^verbatim>\<open>double pitch = circumference / tan(angleRad)\<close>, before the guard.\<close>

definition pitch_raw :: "(real \<Rightarrow> real) \<Rightarrow> real \<Rightarrow> real \<Rightarrow> xdouble" where
  "pitch_raw ctan spiralAngle drillDiameter =
     fdiv (circumference drillDiameter) (Finite (ctan (angleRad spiralAngle)))"

text \<open>\<^verbatim>\<open>double totalRevolutions = totalLength / pitch\<close>, before the guard.\<close>

definition totalRevolutions_raw :: "(real \<Rightarrow> real) \<Rightarrow> real \<Rightarrow> real \<Rightarrow> real \<Rightarrow> xdouble" where
  "totalRevolutions_raw ctan spiralAngle drillDiameter totalLength =
     fdiv totalLength (pitch_raw ctan spiralAngle drillDiameter)"

text \<open>The guard
  \<^verbatim>\<open>totalRevolutions <= 0 || std::isnan(totalRevolutions) || std::isinf(totalRevolutions)\<close>.\<close>

definition fallback :: "(real \<Rightarrow> real) \<Rightarrow> real \<Rightarrow> real \<Rightarrow> real \<Rightarrow> bool" where
  "fallback ctan spiralAngle drillDiameter totalLength =
     (let totalRevolutions = totalRevolutions_raw ctan spiralAngle drillDiameter totalLength
      in le_zero totalRevolutions \<or> isnan totalRevolutions \<or> isinf totalRevolutions)"

text \<open>\<open>totalRevolutions\<close> and \<open>pitch\<close> after the guarded block.\<close>

definition totalRevolutions :: "(real \<Rightarrow> real) \<Rightarrow> real \<Rightarrow> real \<Rightarrow> real \<Rightarrow> real" where
  "totalRevolutions ctan spiralAngle drillDiameter totalLength =
     (if fallback ctan spiralAngle drillDiameter totalLength then 1
      else finite_val (totalRevolutions_raw ctan spiralAngle drillDiameter totalLength))"

definition pitch :: "(real \<Rightarrow> real) \<Rightarrow> real \<Rightarrow> real \<Rightarrow> real \<Rightarrow> real" where
  "pitch ctan spiralAngle drillDiameter totalLength =
     (if fallback ctan spiralAngle drillDiameter totalLength
      then (if totalLength > 0 then totalLength else 1)
      else finite_val (pitch_raw ctan spiralAngle drillDiameter))"

text \<open>\<^verbatim>\<open>int totalPoints = (int)(totalRevolutions * pointsPerRevolution);
  if (totalPoints < 10) totalPoints = 10;\<close>\<close>

definition totalPoints :: "(real \<Rightarrow> real) \<Rightarrow> real \<Rightarrow> real \<Rightarrow> real \<Rightarrow> 32 word \<Rightarrow> int" where
  "totalPoints ctan spiralAngle drillDiameter totalLength pointsPerRevolution =
     (let n = double_to_int
                (totalRevolutions ctan spiralAngle drillDiameter totalLength
                   * of_int (sint pointsPerRevolution))
      in if n < 10 then 10 else n)"

text \<open>The body of the sampling loop at index \<open>i\<close>.\<close>

definition spiral_point :: "int \<Rightarrow> real \<Rightarrow> real \<Rightarrow> real \<Rightarrow> int \<Rightarrow> Point2D" where
  "spiral_point n totalLength p c i =
     (let t = of_int i / of_int n;
          x = t * totalLength;
          y = (x / p) * c
      in \<lparr>pt_x = x, pt_y = y\<rparr>)"

text \<open>\<^verbatim>\<open>for (int i = 0; i <= totalPoints; i++) points.push_back(...)\<close>. The counter
  is an unbounded integer here; it is the \<^verbatim>\<open>int\<close> of the source as long as
  \<open>totalPoints\<close> is below \<^verbatim>\<open>INT_MAX\<close>, where the last increment of the source would
  overflow.\<close>

function spiral_loop ::
  "int \<Rightarrow> int \<Rightarrow> real \<Rightarrow> real \<Rightarrow> real \<Rightarrow> Point2D list \<Rightarrow> Point2D list" where
  "spiral_loop i n totalLength p c points =
     (if i \<le> n
      then spiral_loop (i + 1) n totalLength p c (points @ [spiral_point n totalLength p c i])
      else points)"
  by pat_completeness auto
termination
  by (relation "measure (\<lambda>(i, n, totalLength, p, c, points). nat (n + 1 - i))") auto

declare spiral_loop.simps [simp del]

definition CalculateSpiralGroove ::
  "(real \<Rightarrow> real) \<Rightarrow> real \<Rightarrow> real \<Rightarrow> real \<Rightarrow> real \<Rightarrow> real \<Rightarrow> 32 word \<Rightarrow> Point2D list" where
  "CalculateSpiralGroove ctan spiralAngle drillDiameter totalLength bladeWidth bladeHeight
       pointsPerRevolution =
     spiral_loop 0
       (totalPoints ctan spiralAngle drillDiameter totalLength pointsPerRevolution)
       totalLength
       (pitch ctan spiralAngle drillDiameter totalLength)
       (circumference drillDiameter)
       []"

subsection \<open>\<^verbatim>\<open>SpiralCalculator::CalculateBoundaries\<close>\<close>

text \<open>The pair \<open>(left, right)\<close> that the body of the loop builds from one center point.\<close>

definition boundary_pair :: "real \<Rightarrow> Point2D \<Rightarrow> Point2D \<times> Point2D" where
  "boundary_pair halfWidth center =
     (let left = \<lparr>pt_x = pt_x center, pt_y = pt_y center + halfWidth\<rparr>;
          right = \<lparr>pt_x = pt_x center, pt_y = pt_y center - halfWidth\<rparr>
      in (left, right))"

text \<open>\<^verbatim>\<open>for (size_t i = 0; i < centerPoints.size(); i++)\<close>: the index stays below the
  size, so \<open>centerPoints ! i\<close> is always a read in range.\<close>

function boundary_loop ::
  "nat \<Rightarrow> Point2D list \<Rightarrow> real \<Rightarrow> (Point2D \<times> Point2D) list \<Rightarrow> (Point2D \<times> Point2D) list"
  where
  "boundary_loop i centerPoints halfWidth boundaries =
     (if i < length centerPoints
      then (let center = centerPoints ! i
            in boundary_loop (i + 1) centerPoints halfWidth
                 (boundaries @ [boundary_pair halfWidth center]))
      else boundaries)"
  by pat_completeness auto
termination
  by (relation "measure (\<lambda>(i, centerPoints, halfWidth, boundaries). length centerPoints - i)")
    auto

declare boundary_loop.simps [simp del]

definition CalculateBoundaries :: "Point2D list \<Rightarrow> real \<Rightarrow> (Point2D \<times> Point2D) list" where
  "CalculateBoundaries centerPoints bladeWidth =
     (if length centerPoints < 2 then []
      else (let halfWidth = bladeWidth / 2
            in boundary_loop 0 centerPoints halfWidth []))"

subsection \<open>\<^verbatim>\<open>SpiralCalculator::CalculateToolOutline\<close>\<close>

definition CalculateToolOutline :: "real \<Rightarrow> real \<Rightarrow> Point2D list" where
  "CalculateToolOutline drillDiameter totalLength =
     (let r = drillDiameter / 2
      in [\<lparr>pt_x = 0, pt_y = - r\<rparr>,
          \<lparr>pt_x = totalLength, pt_y = - r\<rparr>,
          \<lparr>pt_x = totalLength, pt_y = r\<rparr>,
          \<lparr>pt_x = 0, pt_y = r\<rparr>,
          \<lparr>pt_x = 0, pt_y = - r\<rparr>])"

subsection \<open>\<^verbatim>\<open>MainWindow\<close>: the stored geometry and the view transform\<close>

text \<open>The data members of the window that the claims are about; the window handles are
  left out. The constructor sets both scales to \<open>1\<close> and both offsets to \<open>0\<close>.\<close>

record MainWindow =
  m_centerPoints :: "Point2D list"
  m_boundaries :: "(Point2D \<times> Point2D) list"
  m_toolOutline :: "Point2D list"
  m_scaleX :: real
  m_scaleY :: real
  m_offsetX :: real
  m_offsetY :: real

text \<open>The window as the constructor leaves it.\<close>

definition MainWindow_init :: MainWindow where
  "MainWindow_init =
     \<lparr>m_centerPoints = [], m_boundaries = [], m_toolOutline = [],
      m_scaleX = 1, m_scaleY = 1, m_offsetX = 0, m_offsetY = 0\<rparr>"

text \<open>\<^verbatim>\<open>RECT\<close>, as \<^verbatim>\<open>GetClientRect\<close> fills it.\<close>

record RECT =
  rc_left :: int
  rc_top :: int
  rc_right :: int
  rc_bottom :: int

text \<open>
  What the window shows to the user: the error box of the parameter check
  (\<^verbatim>\<open>MessageBox(..., MB_OK | MB_ICONERROR)\<close>, "please enter valid parameter values"),
  the information box of \<^verbatim>\<open>DrawToAutoCAD\<close>
  (\<^verbatim>\<open>MB_OK | MB_ICONINFORMATION\<close>, "please generate the groove data first"),
  the refresh of the information label (\<^verbatim>\<open>UpdateInfo\<close>), the request to repaint
  (\<^verbatim>\<open>InvalidateRect\<close>) and the immediate repaint (\<^verbatim>\<open>UpdateWindow\<close>).
\<close>

datatype ui_event =
  MessageBoxError | MessageBoxInformation | UpdateInfo | InvalidateRect | UpdateWindow

text \<open>The running bounding box \<open>minX, maxX, minY, maxY\<close>.\<close>

record bbox =
  minX :: real
  maxX :: real
  minY :: real
  maxY :: real

text \<open>One step of the loops over the centerline and over the tool outline.\<close>

definition extend_point :: "Point2D \<Rightarrow> bbox \<Rightarrow> bbox" where
  "extend_point pt b =
     \<lparr>minX = min (minX b) (pt_x pt), maxX = max (maxX b) (pt_x pt),
      minY = min (minY b) (pt_y pt), maxY = max (maxY b) (pt_y pt)\<rparr>"

text \<open>One step of the loop over the boundary pairs.\<close>

definition extend_boundary :: "Point2D \<times> Point2D \<Rightarrow> bbox \<Rightarrow> bbox" where
  "extend_boundary boundary b =
     \<lparr>minX = min (minX b) (min (pt_x (fst boundary)) (pt_x (snd boundary))),
      maxX = max (maxX b) (max (pt_x (fst boundary)) (pt_x (snd boundary))),
      minY = min (minY b) (min (pt_y (fst boundary)) (pt_y (snd boundary))),
      maxY = max (maxY b) (max (pt_y (fst boundary)) (pt_y (snd boundary)))\<rparr>"

text \<open>The box after the three range-based loops, started at the first center point.\<close>

definition bounding_box ::
  "Point2D \<Rightarrow> Point2D list \<Rightarrow> (Point2D \<times> Point2D) list \<Rightarrow> Point2D list \<Rightarrow> bbox" where
  "bounding_box p0 centerPoints boundaries toolOutline =
     fold extend_point toolOutline
       (fold extend_boundary boundaries
         (fold extend_point centerPoints
           \<lparr>minX = pt_x p0, maxX = pt_x p0, minY = pt_y p0, maxY = pt_y p0\<rparr>))"

text \<open>\<open>clientWidth\<close> leaves 250 pixels for the controls on the left, \<open>clientHeight\<close>
  leaves 20 pixels.\<close>

definition clientWidth :: "RECT \<Rightarrow> int" where
  "clientWidth rect = rc_right rect - rc_left rect - 250"

definition clientHeight :: "RECT \<Rightarrow> int" where
  "clientHeight rect = rc_bottom rect - rc_top rect - 20"

text \<open>The bounding box of the stored geometry: none when there is no center point
  (\<^verbatim>\<open>if (!m_centerPoints.empty())\<close>), else the box started at
  \<^verbatim>\<open>m_centerPoints[0]\<close>.\<close>

definition stored_box :: "MainWindow \<Rightarrow> bbox option" where
  "stored_box w =
     (case m_centerPoints w of
        [] \<Rightarrow> None
      | p0 # _ \<Rightarrow>
          Some (bounding_box p0 (m_centerPoints w) (m_boundaries w) (m_toolOutline w)))"

text \<open>The block of \<^verbatim>\<open>GenerateSpiral\<close> that computes scale and offset from the stored
  geometry and the client rectangle.\<close>

definition fit_view :: "MainWindow \<Rightarrow> RECT \<Rightarrow> MainWindow" where
  "fit_view w rect =
     (case stored_box w of
        None \<Rightarrow> w
      | Some b \<Rightarrow>
         (let rangeX = maxX b - minX b;
              rangeY = maxY b - minY b
          in if rangeX > 0 \<and> rangeY > 0
             then (let scaleX = of_int (clientWidth rect) / rangeX * 0.85;
                       scaleY = of_int (clientHeight rect) / rangeY * 0.85;
                       scale = min scaleX scaleY
                   in w\<lparr>m_scaleX := scale,
                        m_scaleY := scale,
                        m_offsetX := 250 + (of_int (clientWidth rect) - rangeX * scale) / 2
                                       - minX b * scale,
                        m_offsetY := 10 + (of_int (clientHeight rect) - rangeY * scale) / 2
                                       - minY b * scale\<rparr>)
             else w))"

text \<open>
  \<^verbatim>\<open>MainWindow::GenerateSpiral\<close>. The five numbers are what \<^verbatim>\<open>_wtof\<close> read from
  the edit controls, \<open>rect\<close> is the client rectangle, \<open>ctan\<close> the library's tangent.
  The result is the new window state and what was shown, in order.
\<close>

definition GenerateSpiral ::
  "(real \<Rightarrow> real) \<Rightarrow> MainWindow \<Rightarrow> real \<Rightarrow> real \<Rightarrow> real \<Rightarrow> real \<Rightarrow> real \<Rightarrow> RECT \<Rightarrow>
   MainWindow \<times> ui_event list"
  where
  "GenerateSpiral ctan w spiralAngle drillDiameter totalLength bladeWidth bladeHeight rect =
     (if spiralAngle \<le> 0 \<or> spiralAngle \<ge> 90 \<or>
         drillDiameter \<le> 0 \<or> totalLength \<le> 0 \<or>
         bladeWidth \<le> 0 \<or> bladeHeight \<le> 0
      then (w, [MessageBoxError])
      else (let w1 = w\<lparr>m_centerPoints :=
                        CalculateSpiralGroove ctan spiralAngle drillDiameter totalLength
                          bladeWidth bladeHeight 100\<rparr>;
                w2 = w1\<lparr>m_boundaries := CalculateBoundaries (m_centerPoints w1) bladeWidth\<rparr>;
                w3 = w2\<lparr>m_toolOutline := CalculateToolOutline drillDiameter totalLength\<rparr>
            in (fit_view w3 rect, [UpdateInfo, InvalidateRect])))"

subsection \<open>\<^verbatim>\<open>AutoCADDrawer\<close>: the pass through the CAD automation interface\<close>

text \<open>
  How the COM calls of one run of \<^verbatim>\<open>CreatePolylineWithAutoCAD\<close> turn out:
  whether \<^verbatim>\<open>CoInitializeEx\<close> succeeds (or reports \<^verbatim>\<open>RPC_E_CHANGED_MODE\<close>),
  whether \<^verbatim>\<open>GetAutoCADApp\<close> returns an application, whether
  \<^verbatim>\<open>QueryInterface\<close> yields a dispatch pointer, whether \<^verbatim>\<open>SafeArrayCreate\<close>
  returns an array, and whether an exception is raised inside the \<^verbatim>\<open>try\<close> block.
\<close>

record com_calls =
  CoInitializeEx_ok :: bool
  GetAutoCADApp_ok :: bool
  QueryInterface_ok :: bool
  SafeArrayCreate_ok :: bool
  throws :: bool

text \<open>The result is the returned flag and the content of the reference parameter
  \<open>output\<close>, which holds \<open>output0\<close> at the call.\<close>

definition CreatePolylineWithAutoCAD ::
  "com_calls \<Rightarrow> Point2D list \<Rightarrow> Point2D list \<Rightarrow> bool \<times> Point2D list" where
  "CreatePolylineWithAutoCAD env input output0 =
     (if input = [] then (True, input)
      else if \<not> CoInitializeEx_ok env then (False, output0)
      else if throws env then (False, input)
      else if GetAutoCADApp_ok env \<and> QueryInterface_ok env \<and> SafeArrayCreate_ok env
        then (True, input)
        else (False, output0))"

text \<open>
  \<^verbatim>\<open>AutoCADDrawer::GenerateWithAutoCADAPI\<close>. \<open>available\<close> is the answer of
  \<^verbatim>\<open>IsAutoCADAvailable\<close>; each of the four calls of
  \<^verbatim>\<open>CreatePolylineWithAutoCAD\<close> meets its own COM outcomes. The result is the returned
  flag and the three reference parameters.
\<close>

definition GenerateWithAutoCADAPI ::
  "bool \<Rightarrow> com_calls \<Rightarrow> com_calls \<Rightarrow> com_calls \<Rightarrow> com_calls \<Rightarrow>
   Point2D list \<Rightarrow> (Point2D \<times> Point2D) list \<Rightarrow> Point2D list \<Rightarrow>
   bool \<times> Point2D list \<times> (Point2D \<times> Point2D) list \<times> Point2D list" where
  "GenerateWithAutoCADAPI available e1 e2 e3 e4 centerPoints boundaries toolOutline =
     (if available
      then (let (ok1, optimizedCenter) = CreatePolylineWithAutoCAD e1 centerPoints [];
                centerPoints' = (if ok1 then optimizedCenter else centerPoints);
                leftPoints = map fst boundaries;
                rightPoints = map snd boundaries;
                (ok2, optimizedLeft) = CreatePolylineWithAutoCAD e2 leftPoints [];
                leftPoints' = (if ok2 then optimizedLeft else leftPoints);
                (ok3, optimizedRight) = CreatePolylineWithAutoCAD e3 rightPoints [];
                rightPoints' = (if ok3 then optimizedRight else rightPoints);
                minSize = min (length leftPoints') (length rightPoints');
                boundaries' = map (\<lambda>i. (leftPoints' ! i, rightPoints' ! i)) [0..<minSize];
                (ok4, optimizedOutline) = CreatePolylineWithAutoCAD e4 toolOutline [];
                toolOutline' = (if ok4 then optimizedOutline else toolOutline)
            in (True, centerPoints', boundaries', toolOutline'))
      else (False, centerPoints, boundaries, toolOutline))"

subsection \<open>\<^verbatim>\<open>MainWindow\<close>: the button command\<close>

text \<open>\<^verbatim>\<open>MainWindow::DrawToAutoCAD\<close>: both branches on the flag returned by
  \<^verbatim>\<open>GenerateWithAutoCADAPI\<close> repaint the window.\<close>

definition DrawToAutoCAD ::
  "MainWindow \<Rightarrow> bool \<Rightarrow> com_calls \<Rightarrow> com_calls \<Rightarrow> com_calls \<Rightarrow> com_calls \<Rightarrow>
   MainWindow \<times> ui_event list" where
  "DrawToAutoCAD w available e1 e2 e3 e4 =
     (if m_centerPoints w = [] then (w, [MessageBoxInformation])
      else (let (ok, centerPoints, boundaries, toolOutline) =
                  GenerateWithAutoCADAPI available e1 e2 e3 e4
                    (m_centerPoints w) (m_boundaries w) (m_toolOutline w);
                w' = w\<lparr>m_centerPoints := centerPoints, m_boundaries := boundaries,
                        m_toolOutline := toolOutline\<rparr>
            in if ok then (w', [InvalidateRect, UpdateWindow])
               else (w', [InvalidateRect, UpdateWindow])))"

text \<open>
  \<^verbatim>\<open>MainWindow::OnCommand\<close>. \<^verbatim>\<open>LOWORD(wParam)\<close> is the low 16 bits of the
  parameter; the identifier \<^verbatim>\<open>IDC_BUTTON_GENERATE\<close> comes from a resource header
  and is a parameter here.
\<close>

definition OnCommand ::
  "(real \<Rightarrow> real) \<Rightarrow> nat \<Rightarrow> MainWindow \<Rightarrow> nat \<Rightarrow> real \<Rightarrow> real \<Rightarrow> real \<Rightarrow> real \<Rightarrow> real \<Rightarrow>
   RECT \<Rightarrow> bool \<Rightarrow> com_calls \<Rightarrow> com_calls \<Rightarrow> com_calls \<Rightarrow> com_calls \<Rightarrow>
   MainWindow \<times> ui_event list" where
  "OnCommand ctan IDC_BUTTON_GENERATE w wParam spiralAngle drillDiameter totalLength bladeWidth
       bladeHeight rect available e1 e2 e3 e4 =
     (if wParam mod 65536 = IDC_BUTTON_GENERATE
      then (let (w1, shown1) = GenerateSpiral ctan w spiralAngle drillDiameter totalLength
                                 bladeWidth bladeHeight rect;
                (w2, shown2) = DrawToAutoCAD w1 available e1 e2 e3 e4
            in (w2, shown1 @ shown2))
      else (w, []))"

section \<open>The loops in closed form\<close>

lemma spiral_loop_eq:
  "spiral_loop i n totalLength p c points =
     points @ map (spiral_point n totalLength p c) [i..n]"
proof (induction i n totalLength p c points rule: spiral_loop.induct)
  case (1 i n totalLength p c points)
  show ?case
  proof (cases "i \<le> n")
    case True
    then have "[i..n] = i # [i + 1..n]"
      by (simp add: upto_rec1)
    with True "1.IH" show ?thesis
      by (subst spiral_loop.simps) simp
  next
    case False
    then show ?thesis
      by (subst spiral_loop.simps) simp
  qed
qed

lemma boundary_loop_eq:
  "boundary_loop i centerPoints halfWidth boundaries =
     boundaries @ map (boundary_pair halfWidth) (drop i centerPoints)"
proof (induction i centerPoints halfWidth boundaries rule: boundary_loop.induct)
  case (1 i centerPoints halfWidth boundaries)
  show ?case
  proof (cases "i < length centerPoints")
    case True
    then have "drop i centerPoints = centerPoints ! i # drop (Suc i) centerPoints"
      by (simp add: Cons_nth_drop_Suc)
    with True "1.IH" show ?thesis
      by (subst boundary_loop.simps) (simp add: Let_def)
  next
    case False
    then show ?thesis
      by (subst boundary_loop.simps) simp
  qed
qed

lemma CalculateBoundaries_eq:
  "CalculateBoundaries centerPoints bladeWidth =
     (if length centerPoints < 2 then []
      else map (boundary_pair (bladeWidth / 2)) centerPoints)"
  by (simp add: CalculateBoundaries_def boundary_loop_eq)

lemma CalculateSpiralGroove_eq:
  "CalculateSpiralGroove ctan a d l w h ppr =
     map (spiral_point (totalPoints ctan a d l ppr) l (pitch ctan a d l) (circumference d))
       [0..totalPoints ctan a d l ppr]"
  by (simp add: CalculateSpiralGroove_def spiral_loop_eq)

lemma totalPoints_ge_10: "10 \<le> totalPoints ctan a d l ppr"
  by (simp add: totalPoints_def Let_def)

lemma length_CalculateSpiralGroove:
  "length (CalculateSpiralGroove ctan a d l w h ppr) = nat (totalPoints ctan a d l ppr + 1)"
  by (simp add: CalculateSpiralGroove_eq)




lemma CalculateSpiralGroove_nonempty: "CalculateSpiralGroove ctan a d l w h ppr \<noteq> []"
proof
  assume "CalculateSpiralGroove ctan a d l w h ppr = []"
  then have "length (CalculateSpiralGroove ctan a d l w h ppr) = 0"
    by simp
  then show False
    using totalPoints_ge_10 [of ctan a d l ppr] by (simp add: length_CalculateSpiralGroove)
qed





section \<open>What passes the guard\<close>
















section \<open>Bounds on \<open>\<pi>\<close> and on the square root of 3\<close>

















section \<open>The bounding box and the view transform\<close>

lemma extend_point_sel:
  "minX (extend_point p b) = min (minX b) (pt_x p)"
  "maxX (extend_point p b) = max (maxX b) (pt_x p)"
  "minY (extend_point p b) = min (minY b) (pt_y p)"
  "maxY (extend_point p b) = max (maxY b) (pt_y p)"
  by (simp_all add: extend_point_def)

lemma extend_boundary_sel:
  "minX (extend_boundary pr b) = min (minX b) (min (pt_x (fst pr)) (pt_x (snd pr)))"
  "maxX (extend_boundary pr b) = max (maxX b) (max (pt_x (fst pr)) (pt_x (snd pr)))"
  "minY (extend_boundary pr b) = min (minY b) (min (pt_y (fst pr)) (pt_y (snd pr)))"
  "maxY (extend_boundary pr b) = max (maxY b) (max (pt_y (fst pr)) (pt_y (snd pr)))"
  by (simp_all add: extend_boundary_def)

lemma fold_extend_point_grows:
  "minX (fold extend_point pts b) \<le> minX b \<and> maxX b \<le> maxX (fold extend_point pts b)
   \<and> minY (fold extend_point pts b) \<le> minY b \<and> maxY b \<le> maxY (fold extend_point pts b)"
proof (induction pts arbitrary: b)
  case Nil
  show ?case by simp
next
  case (Cons p pts)
  show ?case
    using Cons.IH [of "extend_point p b"] by (simp add: extend_point_sel)
qed

lemma fold_extend_boundary_grows:
  "minX (fold extend_boundary bs b) \<le> minX b \<and> maxX b \<le> maxX (fold extend_boundary bs b)
   \<and> minY (fold extend_boundary bs b) \<le> minY b \<and> maxY b \<le> maxY (fold extend_boundary bs b)"
proof (induction bs arbitrary: b)
  case Nil
  show ?case by simp
next
  case (Cons p bs)
  show ?case
    using Cons.IH [of "extend_boundary p b"] by (simp add: extend_boundary_sel)
qed

lemma fold_extend_point_covers:
  assumes "p \<in> set pts"
  shows "minX (fold extend_point pts b) \<le> pt_x p \<and> pt_x p \<le> maxX (fold extend_point pts b)
   \<and> minY (fold extend_point pts b) \<le> pt_y p \<and> pt_y p \<le> maxY (fold extend_point pts b)"
  using assms
proof (induction pts arbitrary: b)
  case Nil
  then show ?case by simp
next
  case (Cons q pts)
  show ?case
  proof (cases "p = q")
    case True
    then show ?thesis
      using fold_extend_point_grows [of pts "extend_point q b"]
      by (simp add: extend_point_sel)
  next
    case False
    with Cons.prems have "p \<in> set pts" by simp
    then show ?thesis
      using Cons.IH [of "extend_point q b"] by simp
  qed
qed

lemma fold_extend_point_ordered:
  "minX b \<le> maxX b \<and> minY b \<le> maxY b \<Longrightarrow>
   minX (fold extend_point pts b) \<le> maxX (fold extend_point pts b)
   \<and> minY (fold extend_point pts b) \<le> maxY (fold extend_point pts b)"
  using fold_extend_point_grows [of pts b] by linarith

lemma fold_extend_boundary_ordered:
  "minX b \<le> maxX b \<and> minY b \<le> maxY b \<Longrightarrow>
   minX (fold extend_boundary bs b) \<le> maxX (fold extend_boundary bs b)
   \<and> minY (fold extend_boundary bs b) \<le> maxY (fold extend_boundary bs b)"
  using fold_extend_boundary_grows [of bs b] by linarith

lemma bounding_box_ordered:
  "minX (bounding_box p0 cs bs out) \<le> maxX (bounding_box p0 cs bs out)
   \<and> minY (bounding_box p0 cs bs out) \<le> maxY (bounding_box p0 cs bs out)"
  unfolding bounding_box_def
  by (intro fold_extend_point_ordered fold_extend_boundary_ordered) simp

lemma stored_box_ordered:
  "stored_box w = Some b \<Longrightarrow> minX b \<le> maxX b \<and> minY b \<le> maxY b"
  using bounding_box_ordered by (auto simp: stored_box_def split: list.splits)

lemma fit_view_recomputed:
  assumes "stored_box w = Some b" "0 < maxX b - minX b" "0 < maxY b - minY b"
  shows "fit_view w rect =
     w\<lparr>m_scaleX := min (of_int (clientWidth rect) / (maxX b - minX b) * 0.85)
                     (of_int (clientHeight rect) / (maxY b - minY b) * 0.85),
       m_scaleY := min (of_int (clientWidth rect) / (maxX b - minX b) * 0.85)
                     (of_int (clientHeight rect) / (maxY b - minY b) * 0.85),
       m_offsetX := 250 + (of_int (clientWidth rect) - (maxX b - minX b) *
                     min (of_int (clientWidth rect) / (maxX b - minX b) * 0.85)
                       (of_int (clientHeight rect) / (maxY b - minY b) * 0.85)) / 2
                     - minX b * min (of_int (clientWidth rect) / (maxX b - minX b) * 0.85)
                       (of_int (clientHeight rect) / (maxY b - minY b) * 0.85),
       m_offsetY := 10 + (of_int (clientHeight rect) - (maxY b - minY b) *
                     min (of_int (clientWidth rect) / (maxX b - minX b) * 0.85)
                       (of_int (clientHeight rect) / (maxY b - minY b) * 0.85)) / 2
                     - minY b * min (of_int (clientWidth rect) / (maxX b - minX b) * 0.85)
                       (of_int (clientHeight rect) / (maxY b - minY b) * 0.85)\<rparr>"
  using assms by (simp add: fit_view_def Let_def)

lemma fit_view_retained:
  assumes "stored_box w = Some b" "maxX b - minX b = 0 \<or> maxY b - minY b = 0"
  shows "fit_view w rect = w"
  using assms by (auto simp: fit_view_def Let_def)

lemma fit_view_no_geometry: "stored_box w = None \<Longrightarrow> fit_view w rect = w"
  by (simp add: fit_view_def)

lemma stored_box_fit_view: "stored_box (fit_view w rect) = stored_box w"
  by (simp add: fit_view_def stored_box_def Let_def split: option.splits list.splits)

lemma GenerateSpiral_valid:
  assumes "0 < a" "a < 90" "0 < d" "0 < l" "0 < bw" "0 < bh"
  shows "GenerateSpiral ctan w a d l bw bh rect =
    (fit_view
       (w\<lparr>m_centerPoints := CalculateSpiralGroove ctan a d l bw bh 100,
          m_boundaries := CalculateBoundaries (CalculateSpiralGroove ctan a d l bw bh 100) bw,
          m_toolOutline := CalculateToolOutline d l\<rparr>) rect,
     [UpdateInfo, InvalidateRect])"
  using assms by (simp add: GenerateSpiral_def Let_def)

lemma generated_box:
  assumes "cs \<noteq> []"
  shows "\<exists>b. stored_box (w\<lparr>m_centerPoints := cs, m_boundaries := bs,
                 m_toolOutline := CalculateToolOutline d l\<rparr>) = Some b
     \<and> minX b \<le> 0 \<and> l \<le> maxX b \<and> minY b \<le> - (d / 2) \<and> d / 2 \<le> maxY b"
proof -
  let ?out = "CalculateToolOutline d l"
  let ?inner = "fold extend_boundary bs
         (fold extend_point cs
           \<lparr>minX = pt_x (hd cs), maxX = pt_x (hd cs), minY = pt_y (hd cs), maxY = pt_y (hd cs)\<rparr>)"
  let ?b = "fold extend_point ?out ?inner"
  have box: "stored_box (w\<lparr>m_centerPoints := cs, m_boundaries := bs, m_toolOutline := ?out\<rparr>)
               = Some ?b"
    using assms by (cases cs) (simp_all add: stored_box_def bounding_box_def)
  have "\<lparr>pt_x = 0, pt_y = - (d / 2)\<rparr> \<in> set ?out"
    by (simp add: CalculateToolOutline_def Let_def)
  from fold_extend_point_covers [OF this, of ?inner]
  have lo: "minX ?b \<le> 0" "minY ?b \<le> - (d / 2)"
    by simp_all
  have "\<lparr>pt_x = l, pt_y = d / 2\<rparr> \<in> set ?out"
    by (simp add: CalculateToolOutline_def Let_def)
  from fold_extend_point_covers [OF this, of ?inner]
  have hi: "l \<le> maxX ?b" "d / 2 \<le> maxY ?b"
    by simp_all
  from box lo hi show ?thesis
    by blast
qed

section \<open>The pass through the CAD interface changes no point\<close>

lemma CreatePolyline_success:
  "CreatePolylineWithAutoCAD env input output0 = (True, out) \<Longrightarrow> out = input"
  by (auto simp: CreatePolylineWithAutoCAD_def split: if_splits)

lemma CreatePolyline_kept:
  "(case CreatePolylineWithAutoCAD env input output0 of
      (ok, optimized) \<Rightarrow> if ok then optimized else input) = input"
  by (simp add: CreatePolylineWithAutoCAD_def)

lemma recombine_pairs:
  "map (\<lambda>i. (map fst boundaries ! i, map snd boundaries ! i)) [0..<length boundaries]
     = boundaries"
  by (rule nth_equalityI) simp_all

lemma GenerateWithAutoCADAPI_eq:
  "GenerateWithAutoCADAPI available e1 e2 e3 e4 centerPoints boundaries toolOutline =
     (available, centerPoints, boundaries, toolOutline)"
proof (cases available)
  case False
  then show ?thesis by (simp add: GenerateWithAutoCADAPI_def)
next
  case True
  obtain ok1 o1 where r1: "CreatePolylineWithAutoCAD e1 centerPoints [] = (ok1, o1)"
    by (cases "CreatePolylineWithAutoCAD e1 centerPoints []")
  obtain ok2 o2 where r2: "CreatePolylineWithAutoCAD e2 (map fst boundaries) [] = (ok2, o2)"
    by (cases "CreatePolylineWithAutoCAD e2 (map fst boundaries) []")
  obtain ok3 o3 where r3: "CreatePolylineWithAutoCAD e3 (map snd boundaries) [] = (ok3, o3)"
    by (cases "CreatePolylineWithAutoCAD e3 (map snd boundaries) []")
  obtain ok4 o4 where r4: "CreatePolylineWithAutoCAD e4 toolOutline [] = (ok4, o4)"
    by (cases "CreatePolylineWithAutoCAD e4 toolOutline []")
  have k1: "(if ok1 then o1 else centerPoints) = centerPoints"
    using CreatePolyline_kept [where env = e1 and input = centerPoints and ?output0.0 = "[]"] by (simp add: r1)
  have k2: "(if ok2 then o2 else map fst boundaries) = map fst boundaries"
    using CreatePolyline_kept [where env = e2 and input = "map fst boundaries" and ?output0.0 = "[]"] by (simp add: r2)
  have k3: "(if ok3 then o3 else map snd boundaries) = map snd boundaries"
    using CreatePolyline_kept [where env = e3 and input = "map snd boundaries" and ?output0.0 = "[]"] by (simp add: r3)
  have k4: "(if ok4 then o4 else toolOutline) = toolOutline"
    using CreatePolyline_kept [where env = e4 and input = toolOutline and ?output0.0 = "[]"] by (simp add: r4)
  show ?thesis
    unfolding GenerateWithAutoCADAPI_def Let_def r1 r2 r3 r4 prod.case k1 k2 k3 k4
    using True by (simp add: recombine_pairs)
qed

lemma DrawToAutoCAD_eq:
  "DrawToAutoCAD w available e1 e2 e3 e4 =
     (w, if m_centerPoints w = [] then [MessageBoxInformation]
         else [InvalidateRect, UpdateWindow])"
  by (simp add: DrawToAutoCAD_def GenerateWithAutoCADAPI_eq)

section \<open>The claims\<close>












text \<open>
  C5, as the code has it. Let the stored geometry have the bounding box \<open>b\<close>, and let
  the target be the client area less 250 pixels of width and 20 of height. When both
  extents of \<open>b\<close> are nonzero, the fitted scale is the same on both axes and equals
  \<open>min (targetWidth / extentX) (targetHeight / extentY) * (1 - 0.15)\<close>; it is strictly
  positive when the target width and height are positive; the scaled and shifted box is
  centered in the target rectangle (origin \<open>(250, 10)\<close>), takes at most the share
  \<open>1 - 0.15\<close> of it on each axis and exactly that share on one axis. When an extent is
  zero, the window keeps its previous transform.
\<close>

theorem view_fit:
  fixes w :: MainWindow and rect :: RECT and b :: bbox
  defines "w' \<equiv> fit_view w rect"
    and "targetWidth \<equiv> real_of_int (clientWidth rect)"
    and "targetHeight \<equiv> real_of_int (clientHeight rect)"
    and "extentX \<equiv> maxX b - minX b"
    and "extentY \<equiv> maxY b - minY b"
  assumes box: "stored_box w = Some b"
  shows "(extentX \<noteq> 0 \<and> extentY \<noteq> 0 \<longrightarrow>
            m_scaleX w' = m_scaleY w'
          \<and> m_scaleX w' = min (targetWidth / extentX) (targetHeight / extentY) * (1 - 0.15)
          \<and> (0 < targetWidth \<and> 0 < targetHeight \<longrightarrow> 0 < m_scaleX w')
          \<and> (minX b * m_scaleX w' + m_offsetX w') - 250
               = (250 + targetWidth) - (maxX b * m_scaleX w' + m_offsetX w')
          \<and> (minY b * m_scaleY w' + m_offsetY w') - 10
               = (10 + targetHeight) - (maxY b * m_scaleY w' + m_offsetY w')
          \<and> extentX * m_scaleX w' \<le> (1 - 0.15) * targetWidth
          \<and> extentY * m_scaleY w' \<le> (1 - 0.15) * targetHeight
          \<and> (extentX * m_scaleX w' = (1 - 0.15) * targetWidth
              \<or> extentY * m_scaleY w' = (1 - 0.15) * targetHeight))
       \<and> (extentX = 0 \<or> extentY = 0 \<longrightarrow> w' = w)"
proof (intro conjI impI)
  assume "extentX = 0 \<or> extentY = 0"
  then show "w' = w"
    using box unfolding w'_def extentX_def extentY_def by (rule fit_view_retained [rotated])
next
  assume nz: "extentX \<noteq> 0 \<and> extentY \<noteq> 0"
  have "minX b \<le> maxX b \<and> minY b \<le> maxY b"
    using box by (rule stored_box_ordered)
  with nz have ex: "0 < extentX" and ey: "0 < extentY"
    unfolding extentX_def extentY_def by linarith+
  define s where "s = min (targetWidth / extentX * 0.85) (targetHeight / extentY * 0.85)"
  have w': "w' = w\<lparr>m_scaleX := s, m_scaleY := s,
       m_offsetX := 250 + (targetWidth - extentX * s) / 2 - minX b * s,
       m_offsetY := 10 + (targetHeight - extentY * s) / 2 - minY b * s\<rparr>"
    using fit_view_recomputed [OF box, of rect] ex ey
    unfolding w'_def s_def targetWidth_def targetHeight_def extentX_def extentY_def by simp
  have sx: "m_scaleX w' = s" and sy: "m_scaleY w' = s"
    and ox: "m_offsetX w' = 250 + (targetWidth - extentX * s) / 2 - minX b * s"
    and oy: "m_offsetY w' = 10 + (targetHeight - extentY * s) / 2 - minY b * s"
    by (simp_all add: w')
  show "m_scaleX w' = m_scaleY w'"
    by (simp add: sx sy)
  have s_eq: "s = min (targetWidth / extentX) (targetHeight / extentY) * (1 - 0.15)"
    unfolding s_def by (auto simp: min_def)
  then show "m_scaleX w' = min (targetWidth / extentX) (targetHeight / extentY) * (1 - 0.15)"
    by (simp add: sx)
  show "0 < m_scaleX w'" if "0 < targetWidth \<and> 0 < targetHeight"
    using that ex ey by (simp add: sx s_def)
  show "(minX b * m_scaleX w' + m_offsetX w') - 250
               = (250 + targetWidth) - (maxX b * m_scaleX w' + m_offsetX w')"
    unfolding sx ox extentX_def by (simp add: algebra_simps)
  show "(minY b * m_scaleY w' + m_offsetY w') - 10
               = (10 + targetHeight) - (maxY b * m_scaleY w' + m_offsetY w')"
    unfolding sy oy extentY_def by (simp add: algebra_simps)
  have lx: "s \<le> targetWidth / extentX * 0.85" and ly: "s \<le> targetHeight / extentY * 0.85"
    unfolding s_def by simp_all
  have "extentX * s \<le> extentX * (targetWidth / extentX * 0.85)"
    using lx ex by (simp only: mult_le_cancel_left_pos)
  then show fx: "extentX * m_scaleX w' \<le> (1 - 0.15) * targetWidth"
    using ex by (simp add: sx)
  have "extentY * s \<le> extentY * (targetHeight / extentY * 0.85)"
    using ly ey by (simp only: mult_le_cancel_left_pos)
  then show fy: "extentY * m_scaleY w' \<le> (1 - 0.15) * targetHeight"
    using ey by (simp add: sy)
  have "s = targetWidth / extentX * 0.85 \<or> s = targetHeight / extentY * 0.85"
    unfolding s_def by (simp add: min_def)
  then show "extentX * m_scaleX w' = (1 - 0.15) * targetWidth
              \<or> extentY * m_scaleY w' = (1 - 0.15) * targetHeight"
    using ex ey by (auto simp: sx sy)
qed

theorem view_fit_witness:
  "stored_box
     \<lparr>m_centerPoints = [\<lparr>pt_x = 0, pt_y = 0\<rparr>, \<lparr>pt_x = 2, pt_y = 1\<rparr>],
      m_boundaries = [], m_toolOutline = [],
      m_scaleX = 1, m_scaleY = 1, m_offsetX = 0, m_offsetY = 0\<rparr>
     = Some \<lparr>minX = 0, maxX = 2, minY = 0, maxY = 1\<rparr>
   \<and> m_scaleX (fit_view
        \<lparr>m_centerPoints = [\<lparr>pt_x = 0, pt_y = 0\<rparr>, \<lparr>pt_x = 2, pt_y = 1\<rparr>],
         m_boundaries = [], m_toolOutline = [],
         m_scaleX = 1, m_scaleY = 1, m_offsetX = 0, m_offsetY = 0\<rparr>
        \<lparr>rc_left = 0, rc_top = 0, rc_right = 650, rc_bottom = 420\<rparr>) = 170
   \<and> m_scaleY (fit_view
        \<lparr>m_centerPoints = [\<lparr>pt_x = 0, pt_y = 0\<rparr>, \<lparr>pt_x = 2, pt_y = 1\<rparr>],
         m_boundaries = [], m_toolOutline = [],
         m_scaleX = 1, m_scaleY = 1, m_offsetX = 0, m_offsetY = 0\<rparr>
        \<lparr>rc_left = 0, rc_top = 0, rc_right = 650, rc_bottom = 420\<rparr>) = 170
   \<and> stored_box
     \<lparr>m_centerPoints = [\<lparr>pt_x = 0, pt_y = 0\<rparr>, \<lparr>pt_x = 2, pt_y = 0\<rparr>],
      m_boundaries = [], m_toolOutline = [],
      m_scaleX = 3, m_scaleY = 3, m_offsetX = 7, m_offsetY = 7\<rparr>
     = Some \<lparr>minX = 0, maxX = 2, minY = 0, maxY = 0\<rparr>
   \<and> fit_view
        \<lparr>m_centerPoints = [\<lparr>pt_x = 0, pt_y = 0\<rparr>, \<lparr>pt_x = 2, pt_y = 0\<rparr>],
         m_boundaries = [], m_toolOutline = [],
         m_scaleX = 3, m_scaleY = 3, m_offsetX = 7, m_offsetY = 7\<rparr>
        \<lparr>rc_left = 0, rc_top = 0, rc_right = 650, rc_bottom = 420\<rparr>
      = \<lparr>m_centerPoints = [\<lparr>pt_x = 0, pt_y = 0\<rparr>, \<lparr>pt_x = 2, pt_y = 0\<rparr>],
         m_boundaries = [], m_toolOutline = [],
         m_scaleX = 3, m_scaleY = 3, m_offsetX = 7, m_offsetY = 7\<rparr>"
proof -
  let ?w = "\<lparr>m_centerPoints = [\<lparr>pt_x = 0, pt_y = 0\<rparr>, \<lparr>pt_x = 2, pt_y = 1\<rparr>],
      m_boundaries = [], m_toolOutline = [],
      m_scaleX = 1, m_scaleY = 1, m_offsetX = 0, m_offsetY = 0\<rparr>"
  let ?v = "\<lparr>m_centerPoints = [\<lparr>pt_x = 0, pt_y = 0\<rparr>, \<lparr>pt_x = 2, pt_y = 0\<rparr>],
      m_boundaries = [], m_toolOutline = [],
      m_scaleX = 3, m_scaleY = 3, m_offsetX = 7, m_offsetY = 7\<rparr>"
  let ?rect = "\<lparr>rc_left = 0, rc_top = 0, rc_right = 650, rc_bottom = 420\<rparr>"
  have bw: "stored_box ?w = Some \<lparr>minX = 0, maxX = 2, minY = 0, maxY = 1\<rparr>"
    by (simp add: stored_box_def bounding_box_def extend_point_def)
  have bv: "stored_box ?v = Some \<lparr>minX = 0, maxX = 2, minY = 0, maxY = 0\<rparr>"
    by (simp add: stored_box_def bounding_box_def extend_point_def)
  have cw: "clientWidth ?rect = 400" and ch: "clientHeight ?rect = 400"
    by (simp_all add: clientWidth_def clientHeight_def)
  from view_fit [OF bw, of ?rect]
  have "m_scaleX (fit_view ?w ?rect) = 170" and "m_scaleY (fit_view ?w ?rect) = 170"
    by (simp_all add: cw ch)
  moreover from view_fit [OF bv, of ?rect]
  have "fit_view ?v ?rect = ?v"
    by simp
  ultimately show ?thesis
    using bw bv by simp
qed

text \<open>
  C5, as stated, fails on the sign of the scale: in a window whose client area is 200
  pixels wide the target width is \<open>200 - 250 = -50\<close>, and for the geometry of 45
  degrees, diameter 10, length 50 both extents are nonzero while the scale is negative.
\<close>

theorem narrow_window_counterexample:
  "stored_box (fst (GenerateSpiral tan MainWindow_init 45 10 50 2 1
      \<lparr>rc_left = 0, rc_top = 0, rc_right = 200, rc_bottom = 600\<rparr>)) \<noteq> None
   \<and> maxX (the (stored_box (fst (GenerateSpiral tan MainWindow_init 45 10 50 2 1
      \<lparr>rc_left = 0, rc_top = 0, rc_right = 200, rc_bottom = 600\<rparr>))))
     - minX (the (stored_box (fst (GenerateSpiral tan MainWindow_init 45 10 50 2 1
      \<lparr>rc_left = 0, rc_top = 0, rc_right = 200, rc_bottom = 600\<rparr>)))) \<noteq> 0
   \<and> maxY (the (stored_box (fst (GenerateSpiral tan MainWindow_init 45 10 50 2 1
      \<lparr>rc_left = 0, rc_top = 0, rc_right = 200, rc_bottom = 600\<rparr>))))
     - minY (the (stored_box (fst (GenerateSpiral tan MainWindow_init 45 10 50 2 1
      \<lparr>rc_left = 0, rc_top = 0, rc_right = 200, rc_bottom = 600\<rparr>)))) \<noteq> 0
   \<and> m_scaleX (fst (GenerateSpiral tan MainWindow_init 45 10 50 2 1
      \<lparr>rc_left = 0, rc_top = 0, rc_right = 200, rc_bottom = 600\<rparr>)) < 0"
proof -
  let ?rect = "\<lparr>rc_left = 0, rc_top = 0, rc_right = 200, rc_bottom = 600\<rparr>"
  let ?cs = "CalculateSpiralGroove tan 45 10 50 2 1 100"
  let ?g = "MainWindow_init\<lparr>m_centerPoints := ?cs,
          m_boundaries := CalculateBoundaries ?cs 2,
          m_toolOutline := CalculateToolOutline 10 50\<rparr>"
  have gen: "fst (GenerateSpiral tan MainWindow_init 45 10 50 2 1 ?rect) = fit_view ?g ?rect"
    by (subst GenerateSpiral_valid) simp_all
  obtain b where b: "stored_box ?g = Some b"
    and bx: "minX b \<le> 0" "50 \<le> maxX b" and bounds_y: "minY b \<le> - (10 / 2)" "10 / 2 \<le> maxY b"
    using generated_box [where cs = ?cs and w = MainWindow_init
        and bs = "CalculateBoundaries ?cs 2" and d = 10 and l = 50]
      CalculateSpiralGroove_nonempty [of tan 45 10 50 2 1 100]
    by blast
  have ex: "0 < maxX b - minX b" and ey: "0 < maxY b - minY b"
    using bx bounds_y by linarith+
  have cw: "real_of_int (clientWidth ?rect) = - 50"
    by (simp add: clientWidth_def)
  have "m_scaleX (fit_view ?g ?rect)
      = min (real_of_int (clientWidth ?rect) / (maxX b - minX b) * 0.85)
          (real_of_int (clientHeight ?rect) / (maxY b - minY b) * 0.85)"
    by (simp add: fit_view_recomputed [OF b ex ey])
  also have "\<dots> \<le> real_of_int (clientWidth ?rect) / (maxX b - minX b) * 0.85"
    by (rule min.cobounded1)
  also have "\<dots> < 0"
    using ex unfolding cw by (simp add: divide_neg_pos)
  finally have neg: "m_scaleX (fit_view ?g ?rect) < 0" .
  have sb: "stored_box (fit_view ?g ?rect) = Some b"
    using b by (simp add: stored_box_fit_view)
  from neg sb ex ey show ?thesis
    unfolding gen by simp
qed




text \<open>
  C7. If a submitted parameter is outside its domain (helix angle not strictly between 0
  and 90, or diameter, length, blade width or blade height not strictly positive),
  \<open>GenerateSpiral\<close> shows the one error box and returns with the window state as it was:
  centerline, boundaries, outline, scales and offsets are unchanged and no point is
  computed. The same holds for the whole button command: \<open>OnCommand\<close> goes on to
  \<open>DrawToAutoCAD\<close>, which leaves the state as it is; the error box stays the only
  message about the input (a window without geometry adds the information box of
  \<open>DrawToAutoCAD\<close>).
\<close>

theorem invalid_input_rejected:
  assumes "spiralAngle \<le> 0 \<or> 90 \<le> spiralAngle \<or> drillDiameter \<le> 0 \<or> totalLength \<le> 0
     \<or> bladeWidth \<le> 0 \<or> bladeHeight \<le> 0"
  shows "GenerateSpiral ctan w spiralAngle drillDiameter totalLength bladeWidth bladeHeight rect
           = (w, [MessageBoxError])
    \<and> (wParam mod 65536 = IDC_BUTTON_GENERATE \<longrightarrow>
         OnCommand ctan IDC_BUTTON_GENERATE w wParam spiralAngle drillDiameter totalLength
             bladeWidth bladeHeight rect available e1 e2 e3 e4
           = (w, MessageBoxError #
                (if m_centerPoints w = [] then [MessageBoxInformation]
                 else [InvalidateRect, UpdateWindow])))"
proof -
  have g: "GenerateSpiral ctan w spiralAngle drillDiameter totalLength bladeWidth bladeHeight rect
             = (w, [MessageBoxError])"
    using assms by (simp add: GenerateSpiral_def)
  then show ?thesis
    by (simp add: OnCommand_def DrawToAutoCAD_eq)
qed

theorem invalid_input_rejected_witness:
  "GenerateSpiral tan MainWindow_init 0 10 50 2 1
      \<lparr>rc_left = 0, rc_top = 0, rc_right = 1184, rc_bottom = 761\<rparr>
     = (MainWindow_init, [MessageBoxError])
   \<and> OnCommand tan 1001 MainWindow_init 1001 0 10 50 2 1
        \<lparr>rc_left = 0, rc_top = 0, rc_right = 1184, rc_bottom = 761\<rparr> False
        \<lparr>CoInitializeEx_ok = False, GetAutoCADApp_ok = False, QueryInterface_ok = False,
         SafeArrayCreate_ok = False, throws = False\<rparr>
        \<lparr>CoInitializeEx_ok = False, GetAutoCADApp_ok = False, QueryInterface_ok = False,
         SafeArrayCreate_ok = False, throws = False\<rparr>
        \<lparr>CoInitializeEx_ok = False, GetAutoCADApp_ok = False, QueryInterface_ok = False,
         SafeArrayCreate_ok = False, throws = False\<rparr>
        \<lparr>CoInitializeEx_ok = False, GetAutoCADApp_ok = False, QueryInterface_ok = False,
         SafeArrayCreate_ok = False, throws = False\<rparr>
     = (MainWindow_init, [MessageBoxError, MessageBoxInformation])
   \<and> GenerateSpiral tan
        (fst (GenerateSpiral tan MainWindow_init 30 10 50 2 1
                \<lparr>rc_left = 0, rc_top = 0, rc_right = 1184, rc_bottom = 761\<rparr>))
        30 10 50 0 1 \<lparr>rc_left = 0, rc_top = 0, rc_right = 1184, rc_bottom = 761\<rparr>
     = (fst (GenerateSpiral tan MainWindow_init 30 10 50 2 1
                \<lparr>rc_left = 0, rc_top = 0, rc_right = 1184, rc_bottom = 761\<rparr>),
        [MessageBoxError])"
proof -
  let ?rect = "\<lparr>rc_left = 0, rc_top = 0, rc_right = 1184, rc_bottom = 761\<rparr>"
  let ?off = "\<lparr>CoInitializeEx_ok = False, GetAutoCADApp_ok = False, QueryInterface_ok = False,
         SafeArrayCreate_ok = False, throws = False\<rparr>"
  have first: "GenerateSpiral tan MainWindow_init 0 10 50 2 1 ?rect = (MainWindow_init, [MessageBoxError])
    \<and> OnCommand tan 1001 MainWindow_init 1001 0 10 50 2 1 ?rect False ?off ?off ?off ?off
        = (MainWindow_init, [MessageBoxError, MessageBoxInformation])"
    using invalid_input_rejected [where ctan = tan and spiralAngle = 0 and drillDiameter = 10
        and totalLength = 50 and bladeWidth = 2 and bladeHeight = 1 and w = MainWindow_init
        and rect = ?rect and wParam = 1001 and IDC_BUTTON_GENERATE = 1001
        and available = False and ?e1.0 = ?off and ?e2.0 = ?off and ?e3.0 = ?off
        and ?e4.0 = ?off]
    by (simp add: MainWindow_init_def)
  have second: "GenerateSpiral tan (fst (GenerateSpiral tan MainWindow_init 30 10 50 2 1 ?rect))
        30 10 50 0 1 ?rect
     = (fst (GenerateSpiral tan MainWindow_init 30 10 50 2 1 ?rect), [MessageBoxError])"
    using invalid_input_rejected [where ctan = tan and spiralAngle = 30 and drillDiameter = 10
        and totalLength = 50 and bladeWidth = 0 and bladeHeight = 1
        and w = "fst (GenerateSpiral tan MainWindow_init 30 10 50 2 1 ?rect)" and rect = ?rect]
    by simp
  from first second show ?thesis
    by simp
qed

text \<open>
  C8. Two runs of \<open>CalculateSpiralGroove\<close> whose inputs differ only in \<open>bladeHeight\<close>
  return the same centerline: the parameter takes part in no point computation.
\<close>

theorem bladeHeight_unused:
  "CalculateSpiralGroove ctan spiralAngle drillDiameter totalLength bladeWidth bladeHeight1
       pointsPerRevolution
   = CalculateSpiralGroove ctan spiralAngle drillDiameter totalLength bladeWidth bladeHeight2
       pointsPerRevolution"
  by (simp add: CalculateSpiralGroove_def)

text \<open>
  C9. On fewer than 2 center points \<open>CalculateBoundaries\<close> returns the empty sequence;
  on 2 or more points it returns a sequence of exactly the same count.
\<close>

theorem boundaries_count:
  "(length centerPoints < 2 \<longrightarrow> CalculateBoundaries centerPoints bladeWidth = [])
   \<and> (2 \<le> length centerPoints \<longrightarrow>
        length (CalculateBoundaries centerPoints bladeWidth) = length centerPoints)"
  by (simp add: CalculateBoundaries_eq)

theorem boundaries_count_witness:
  "length [\<lparr>pt_x = 0, pt_y = 0\<rparr>] < 2
   \<and> CalculateBoundaries [\<lparr>pt_x = 0, pt_y = 0\<rparr>] 2 = []
   \<and> 2 \<le> length [\<lparr>pt_x = 0, pt_y = 0\<rparr>, \<lparr>pt_x = 1, pt_y = 1\<rparr>]
   \<and> length (CalculateBoundaries [\<lparr>pt_x = 0, pt_y = 0\<rparr>, \<lparr>pt_x = 1, pt_y = 1\<rparr>] 2)
       = length [\<lparr>pt_x = 0, pt_y = 0\<rparr>, \<lparr>pt_x = 1, pt_y = 1\<rparr>]"
  using boundaries_count [of "[\<lparr>pt_x = 0, pt_y = 0\<rparr>]" 2]
    boundaries_count [of "[\<lparr>pt_x = 0, pt_y = 0\<rparr>, \<lparr>pt_x = 1, pt_y = 1\<rparr>]" 2]
  by simp

text \<open>
  C10. When \<open>CreatePolylineWithAutoCAD\<close> succeeds, its output equals its input; when it
  fails, \<open>GenerateWithAutoCADAPI\<close> keeps the sequence it had. So after
  \<open>GenerateWithAutoCADAPI\<close> the centerline, the boundary pairs and the tool outline are
  what they were before the call, whether the CAD application is available or not and
  however its COM calls turn out.
\<close>

theorem refinement_is_identity:
  "(CreatePolylineWithAutoCAD env input output0 = (True, optimized) \<longrightarrow> optimized = input)
   \<and> snd (GenerateWithAutoCADAPI available e1 e2 e3 e4 centerPoints boundaries toolOutline)
       = (centerPoints, boundaries, toolOutline)"
  by (simp add: GenerateWithAutoCADAPI_eq CreatePolyline_success)

theorem refinement_is_identity_witness:
  "CreatePolylineWithAutoCAD
      \<lparr>CoInitializeEx_ok = True, GetAutoCADApp_ok = True, QueryInterface_ok = True,
       SafeArrayCreate_ok = True, throws = False\<rparr>
      [\<lparr>pt_x = 1, pt_y = 2\<rparr>] [] = (True, [\<lparr>pt_x = 1, pt_y = 2\<rparr>])
   \<and> snd (GenerateWithAutoCADAPI True
          \<lparr>CoInitializeEx_ok = True, GetAutoCADApp_ok = True, QueryInterface_ok = True,
           SafeArrayCreate_ok = True, throws = False\<rparr>
          \<lparr>CoInitializeEx_ok = True, GetAutoCADApp_ok = False, QueryInterface_ok = False,
           SafeArrayCreate_ok = False, throws = False\<rparr>
          \<lparr>CoInitializeEx_ok = False, GetAutoCADApp_ok = False, QueryInterface_ok = False,
           SafeArrayCreate_ok = False, throws = False\<rparr>
          \<lparr>CoInitializeEx_ok = True, GetAutoCADApp_ok = True, QueryInterface_ok = True,
           SafeArrayCreate_ok = True, throws = True\<rparr>
          [\<lparr>pt_x = 1, pt_y = 2\<rparr>]
          [(\<lparr>pt_x = 1, pt_y = 3\<rparr>, \<lparr>pt_x = 1, pt_y = 1\<rparr>)]
          [\<lparr>pt_x = 0, pt_y = 0\<rparr>])
       = ([\<lparr>pt_x = 1, pt_y = 2\<rparr>], [(\<lparr>pt_x = 1, pt_y = 3\<rparr>, \<lparr>pt_x = 1, pt_y = 1\<rparr>)],
          [\<lparr>pt_x = 0, pt_y = 0\<rparr>])"
proof -
  let ?ok = "\<lparr>CoInitializeEx_ok = True, GetAutoCADApp_ok = True, QueryInterface_ok = True,
       SafeArrayCreate_ok = True, throws = False\<rparr>"
  have run: "CreatePolylineWithAutoCAD ?ok [\<lparr>pt_x = 1, pt_y = 2\<rparr>] []
               = (True, [\<lparr>pt_x = 1, pt_y = 2\<rparr>])"
    by (simp add: CreatePolylineWithAutoCAD_def)
  show ?thesis
    using run
      refinement_is_identity [where available = True
        and centerPoints = "[\<lparr>pt_x = 1, pt_y = 2\<rparr>]"
        and boundaries = "[(\<lparr>pt_x = 1, pt_y = 3\<rparr>, \<lparr>pt_x = 1, pt_y = 1\<rparr>)]"
        and toolOutline = "[\<lparr>pt_x = 0, pt_y = 0\<rparr>]"]
    by simp
qed

end
